theory Spec2Isabelle
  imports Complex_Main
begin

section \<open>Gadget-2 SPH parameter records (src/hydro/Gadget2/hydro\_parameters.h)\<close>

text \<open>
  The header defines three parameter structs (MHD, artificial viscosity, thermal
  diffusion) and, for each, four \<^verbatim>\<open>static INLINE\<close> functions: initialise from the
  parameter file, initialise for mocking, print at start-up, write to the snapshot.
  The functions are embedded one by one. A struct filled through a pointer is a record
  that the function takes and returns; the start-up log and the HDF5 file are explicit
  states; \<^verbatim>\<open>error(...)\<close>, which aborts the run, is the \<open>Inl\<close> branch of a sum.
  The MHD part exists under \<^verbatim>\<open>WITH_MHD\<close> and the snapshot writers under
  \<^verbatim>\<open>HAVE_HDF5\<close>; the embedding is of the text inside those guards.
\<close>

subsection \<open>Values of type float\<close>

text \<open>
  No function of the header computes with its floats: they are read, stored, compared
  once with \<^verbatim>\<open>1.f\<close>, logged and written out. A \<^verbatim>\<open>float\<close> is therefore a finite
  real, an infinity or a NaN, a literal stands for its decimal value (\<^verbatim>\<open>0.8f\<close> for
  0.8; the rounding of a literal to binary32 is not represented), and the comparisons
  are those of C: every comparison with a NaN is false.
\<close>

datatype c_float = Finite real | Pos_inf | Neg_inf | NaN

fun float_lt :: "c_float \<Rightarrow> c_float \<Rightarrow> bool" where
  "float_lt (Finite a) (Finite b) = (a < b)"
| "float_lt (Finite a) Pos_inf = True"
| "float_lt Neg_inf (Finite b) = True"
| "float_lt Neg_inf Pos_inf = True"
| "float_lt _ _ = False"

fun float_ge :: "c_float \<Rightarrow> c_float \<Rightarrow> bool" where
  "float_ge (Finite a) (Finite b) = (b \<le> a)"
| "float_ge (Finite a) Neg_inf = True"
| "float_ge Pos_inf (Finite b) = True"
| "float_ge Pos_inf Pos_inf = True"
| "float_ge Pos_inf Neg_inf = True"
| "float_ge Neg_inf Neg_inf = True"
| "float_ge _ _ = False"

subsection \<open>Compile-time constants\<close>

definition const_viscosity_beta :: c_float where
  "const_viscosity_beta = Finite 3.0"

definition hydro_props_default_viscosity_alpha_feedback_reset :: c_float where
  "hydro_props_default_viscosity_alpha_feedback_reset = Finite 0.8"

definition hydro_props_default_viscosity_alpha :: c_float where
  "hydro_props_default_viscosity_alpha = Finite 0.8"

subsection \<open>The structs\<close>

record mhd_global_data =
  artificial_dissipation_constant :: c_float
  artificial_dissipation_minimum :: c_float
  artificial_dissipation_source :: c_float
  artificial_dissipation_timescale :: c_float
  with_div_B_cleaning :: int
  div_B_parabolic_sigma :: c_float
  div_B_over_clean_factor :: c_float

record viscosity_global_data =
  alpha :: c_float

text \<open>\<^verbatim>\<open>struct diffusion_global_data {}\<close> has no member: a type with one value.\<close>

datatype diffusion_global_data = Diffusion_global_data

text \<open>
  Member selection by name, as the declaration of \<^verbatim>\<open>struct mhd_global_data\<close> fixes it:
  the seven declared members and no other. \<^verbatim>\<open>mhd->name\<close> is well-formed only for a
  name in this table.
\<close>

datatype member = Member_float c_float | Member_int int

definition mhd_global_data_member :: "mhd_global_data \<Rightarrow> string \<Rightarrow> member option" where
  "mhd_global_data_member mhd =
     map_of
       [(''artificial_dissipation_constant'', Member_float (artificial_dissipation_constant mhd)),
        (''artificial_dissipation_minimum'', Member_float (artificial_dissipation_minimum mhd)),
        (''artificial_dissipation_source'', Member_float (artificial_dissipation_source mhd)),
        (''artificial_dissipation_timescale'', Member_float (artificial_dissipation_timescale mhd)),
        (''with_div_B_cleaning'', Member_int (with_div_B_cleaning mhd)),
        (''div_B_parabolic_sigma'', Member_float (div_B_parabolic_sigma mhd)),
        (''div_B_over_clean_factor'', Member_float (div_B_over_clean_factor mhd))]"

fun truthy :: "member \<Rightarrow> bool" where
  "truthy (Member_int i) = (i \<noteq> 0)"
| "truthy (Member_float x) = (x \<noteq> Finite 0)"

subsection \<open>The collaborators: parameter file, log, snapshot group\<close>

text \<open>
  \<^verbatim>\<open>struct swift_params\<close> is only forward-declared in the header, and the lookups
  \<^verbatim>\<open>parser_get_param_float\<close>, \<^verbatim>\<open>parser_get_opt_param_float\<close> and
  \<^verbatim>\<open>parser_get_opt_param_int\<close> are defined elsewhere. They are taken from the
  description of the configuration source: it supplies named scalar values by key; a
  required lookup fails the run if the key is absent, an optional lookup returns the
  caller's default if the key is absent.
\<close>

text \<open>
  Modelled from the spec: \<^verbatim>\<open>struct swift_params\<close>, the parameter file, as the float
  values and the int values it supplies, by key.
\<close>

record swift_params =
  float_params :: "string \<rightharpoonup> c_float"
  int_params :: "string \<rightharpoonup> int"

text \<open>
  The two ways a run ends: a required key is absent (raised inside the parser), or
  \<^verbatim>\<open>error("...")\<close> is called with a message.
\<close>

datatype error =
    Missing_parameter string
  | Fatal string

text \<open>
  Modelled from the spec: \<^verbatim>\<open>parser_get_param_float\<close>, the required lookup of a
  float; it fails the run if the key is absent.
\<close>

definition parser_get_param_float :: "swift_params \<Rightarrow> string \<Rightarrow> error + c_float" where
  "parser_get_param_float params name =
     (case float_params params name of
        None \<Rightarrow> Inl (Missing_parameter name)
      | Some v \<Rightarrow> Inr v)"

text \<open>
  Modelled from the spec: \<^verbatim>\<open>parser_get_opt_param_float\<close>, the optional lookup of a
  float; it returns the default if the key is absent.
\<close>

definition parser_get_opt_param_float :: "swift_params \<Rightarrow> string \<Rightarrow> c_float \<Rightarrow> c_float" where
  "parser_get_opt_param_float params name def =
     (case float_params params name of
        None \<Rightarrow> def
      | Some v \<Rightarrow> v)"

text \<open>
  Modelled from the spec: \<^verbatim>\<open>parser_get_opt_param_int\<close>, the optional lookup of an
  int; it returns the default if the key is absent.
\<close>

definition parser_get_opt_param_int :: "swift_params \<Rightarrow> string \<Rightarrow> int \<Rightarrow> int" where
  "parser_get_opt_param_int params name def =
     (case int_params params name of
        None \<Rightarrow> def
      | Some v \<Rightarrow> v)"

text \<open>
  Modelled from the spec: the macro \<^verbatim>\<open>message\<close> of \<^verbatim>\<open>error.h\<close>, the logging sink.
  It takes single-line formatted messages and is write-only. A line of the log is the
  format string with its arguments; the rendering of \<^verbatim>\<open>%g\<close> and \<^verbatim>\<open>%.3f\<close> is not
  represented.
\<close>

type_synonym log = "(string \<times> c_float list) list"

definition message :: "string \<Rightarrow> c_float list \<Rightarrow> log \<Rightarrow> log" where
  "message fmt args lg = lg @ [(fmt, args)]"

text \<open>
  The metadata sink (\<^verbatim>\<open>io_write_attribute_f\<close> and \<^verbatim>\<open>io_write_attribute_i\<close> of
  \<^verbatim>\<open>common_io.h\<close>) accepts named scalar attribute writes on a group handle. The
  file maps every group handle to the attribute writes it has received, in order.
\<close>

type_synonym hid_t = int

datatype attribute = Attribute_f c_float | Attribute_i int

type_synonym hdf5 = "hid_t \<Rightarrow> (string \<times> attribute) list"

text \<open>
  Modelled from the spec: \<^verbatim>\<open>io_write_attribute_f\<close>, the write of a named float
  attribute to a group.
\<close>

definition io_write_attribute_f :: "hid_t \<Rightarrow> string \<Rightarrow> c_float \<Rightarrow> hdf5 \<Rightarrow> hdf5" where
  "io_write_attribute_f grp name v file = file(grp := file grp @ [(name, Attribute_f v)])"

text \<open>
  Modelled from the spec: \<^verbatim>\<open>io_write_attribute_i\<close>, the write of a named int
  attribute to a group.
\<close>

definition io_write_attribute_i :: "hid_t \<Rightarrow> string \<Rightarrow> int \<Rightarrow> hdf5 \<Rightarrow> hdf5" where
  "io_write_attribute_i grp name v file = file(grp := file grp @ [(name, Attribute_i v)])"

subsection \<open>MHD\<close>

text \<open>
  \<^verbatim>\<open>mhd_init\<close>: four required lookups, the optional cleaning flag, the required
  \<^verbatim>\<open>SPH:div_B_parabolic_sigma\<close>, the optional over-cleaning factor with default
  \<^verbatim>\<open>1.f\<close>, then the check. A failing required lookup ends the run at that call.
  The source calls \<^verbatim>\<open>parser_get_opt_param_int\<close> with the key alone; the value it
  yields for an absent key is not fixed by the header and is the argument
  \<open>cleaning_default\<close>. The unit system and the physical constants are not used.
\<close>

definition mhd_init ::
  "swift_params \<Rightarrow> 'us \<Rightarrow> 'pc \<Rightarrow> int \<Rightarrow> mhd_global_data \<Rightarrow> error + mhd_global_data" where
  "mhd_init params us phys_const cleaning_default mhd =
     (case parser_get_param_float params ''SPH:artificial_dissipation_constant'' of
        Inl e \<Rightarrow> Inl e
      | Inr c \<Rightarrow>
     (let mhd = mhd\<lparr>artificial_dissipation_constant := c\<rparr> in
      case parser_get_param_float params ''SPH:artificial_dissipation_minimum'' of
        Inl e \<Rightarrow> Inl e
      | Inr c \<Rightarrow>
     (let mhd = mhd\<lparr>artificial_dissipation_minimum := c\<rparr> in
      case parser_get_param_float params ''SPH:artificial_dissipation_source'' of
        Inl e \<Rightarrow> Inl e
      | Inr c \<Rightarrow>
     (let mhd = mhd\<lparr>artificial_dissipation_source := c\<rparr> in
      case parser_get_param_float params ''SPH:artificial_dissipation_timescale'' of
        Inl e \<Rightarrow> Inl e
      | Inr c \<Rightarrow>
     (let mhd = mhd\<lparr>artificial_dissipation_timescale := c\<rparr>;
          mhd = mhd\<lparr>with_div_B_cleaning :=
                  parser_get_opt_param_int params ''SPH:with_div_B_cleaning'' cleaning_default\<rparr> in
      case parser_get_param_float params ''SPH:div_B_parabolic_sigma'' of
        Inl e \<Rightarrow> Inl e
      | Inr c \<Rightarrow>
     (let mhd = mhd\<lparr>div_B_parabolic_sigma := c\<rparr>;
          mhd = mhd\<lparr>div_B_over_clean_factor :=
                  parser_get_opt_param_float params ''SPH:div_B_over_clean_factor'' (Finite 1)\<rparr> in
      if float_lt (div_B_over_clean_factor mhd) (Finite 1)
      then Inl (Fatal ''Cannot have div_B_over_clean_factor < 1.'')
      else Inr mhd))))))"

definition mhd_init_no_hydro :: "mhd_global_data \<Rightarrow> mhd_global_data" where
  "mhd_init_no_hydro mhd =
     (let mhd = mhd\<lparr>artificial_dissipation_constant := Finite 0\<rparr>;
          mhd = mhd\<lparr>artificial_dissipation_minimum := Finite 0\<rparr>;
          mhd = mhd\<lparr>artificial_dissipation_source := Finite 0\<rparr>;
          mhd = mhd\<lparr>artificial_dissipation_timescale := Finite 0\<rparr>;
          mhd = mhd\<lparr>with_div_B_cleaning := 0\<rparr>;
          mhd = mhd\<lparr>div_B_parabolic_sigma := Finite 0\<rparr>;
          mhd = mhd\<lparr>div_B_over_clean_factor := Finite 0\<rparr>
      in mhd)"

text \<open>
  \<^verbatim>\<open>mhd_print\<close>. Its condition is \<^verbatim>\<open>mhd->div_B_cleaning\<close>, selected by name from the
  struct; a name the struct does not declare leaves the function ill-formed, which is
  the \<open>Inl\<close> result.
\<close>

datatype ill_formed = No_member string string

definition mhd_print :: "mhd_global_data \<Rightarrow> log \<Rightarrow> ill_formed + log" where
  "mhd_print mhd lg =
     (let lg = message ''MHD artificial_dissipation_constant = %g''
                 [artificial_dissipation_constant mhd] lg;
          lg = message ''MHD artificial_dissipation_minimum = %g''
                 [artificial_dissipation_minimum mhd] lg;
          lg = message ''MHD artificial_dissipation_source = %g''
                 [artificial_dissipation_source mhd] lg;
          lg = message ''MHD artificial_dissipation_timescale = %g''
                 [artificial_dissipation_timescale mhd] lg
      in case mhd_global_data_member mhd ''div_B_cleaning'' of
           None \<Rightarrow> Inl (No_member ''mhd_global_data'' ''div_B_cleaning'')
         | Some c \<Rightarrow>
             if truthy c then
               (let lg = message ''MHD is running with divB cleaning ON.'' [] lg;
                    lg = message ''MHD div_B_parabolic_sigma = %g''
                           [div_B_parabolic_sigma mhd] lg;
                    lg = message ''MHD div_B_over_clean_factor = %g''
                           [div_B_over_clean_factor mhd] lg
                in Inr lg)
             else Inr (message ''MHD is running with divB cleaning OFF.'' [] lg))"

definition mhd_print_snapshot :: "hid_t \<Rightarrow> mhd_global_data \<Rightarrow> hdf5 \<Rightarrow> hdf5" where
  "mhd_print_snapshot h_grpsph mhd file =
     (let file = io_write_attribute_f h_grpsph ''Artificial dissipation constant''
                   (artificial_dissipation_constant mhd) file;
          file = io_write_attribute_f h_grpsph ''Artificial dissipation minimum''
                   (artificial_dissipation_minimum mhd) file;
          file = io_write_attribute_f h_grpsph ''Artificial dissipation source''
                   (artificial_dissipation_source mhd) file;
          file = io_write_attribute_f h_grpsph ''Artificial dissipation timescale''
                   (artificial_dissipation_timescale mhd) file;
          file = io_write_attribute_i h_grpsph ''divB cleaning turned on''
                   (with_div_B_cleaning mhd) file
      in if with_div_B_cleaning mhd \<noteq> 0 then
           (let file = io_write_attribute_f h_grpsph ''divB parabolic sigma''
                         (div_B_parabolic_sigma mhd) file;
                file = io_write_attribute_f h_grpsph ''divB over-cleaning factor''
                         (div_B_over_clean_factor mhd) file
            in file)
         else file)"

subsection \<open>Viscosity\<close>

definition viscosity_init ::
  "swift_params \<Rightarrow> 'us \<Rightarrow> 'pc \<Rightarrow> viscosity_global_data \<Rightarrow> viscosity_global_data" where
  "viscosity_init params us phys_const viscosity =
     viscosity\<lparr>alpha := parser_get_opt_param_float params ''SPH:viscosity_alpha''
                          hydro_props_default_viscosity_alpha\<rparr>"

definition viscosity_init_no_hydro :: "viscosity_global_data \<Rightarrow> viscosity_global_data" where
  "viscosity_init_no_hydro viscosity = viscosity\<lparr>alpha := hydro_props_default_viscosity_alpha\<rparr>"

definition viscosity_print :: "viscosity_global_data \<Rightarrow> log \<Rightarrow> log" where
  "viscosity_print viscosity lg =
     message ''Artificial viscosity parameters set to alpha: %.3f'' [alpha viscosity] lg"

definition viscosity_print_snapshot :: "hid_t \<Rightarrow> viscosity_global_data \<Rightarrow> hdf5 \<Rightarrow> hdf5" where
  "viscosity_print_snapshot h_grpsph viscosity file =
     (let file = io_write_attribute_f h_grpsph ''Alpha viscosity'' (alpha viscosity) file;
          file = io_write_attribute_f h_grpsph ''Beta viscosity'' const_viscosity_beta file
      in file)"

subsection \<open>Diffusion\<close>

text \<open>
  The four bodies are empty. Each function returns, unchanged, the state it could have
  written: the struct behind the pointer, the log, the file.
\<close>

definition diffusion_init ::
  "swift_params \<Rightarrow> 'us \<Rightarrow> 'pc \<Rightarrow> diffusion_global_data \<Rightarrow> diffusion_global_data" where
  "diffusion_init params us phys_const diffusion = diffusion"

definition diffusion_init_no_hydro :: "diffusion_global_data \<Rightarrow> diffusion_global_data" where
  "diffusion_init_no_hydro diffusion = diffusion"

definition diffusion_print :: "diffusion_global_data \<Rightarrow> log \<Rightarrow> log" where
  "diffusion_print diffusion lg = lg"

definition diffusion_print_snapshot :: "hid_t \<Rightarrow> diffusion_global_data \<Rightarrow> hdf5 \<Rightarrow> hdf5" where
  "diffusion_print_snapshot h_grpsph diffusion file = file"

subsection \<open>Vocabulary of the statements\<close>

text \<open>The five keys that \<^verbatim>\<open>mhd_init\<close> reads with the required lookup, in source order.\<close>

definition mhd_required_keys :: "string list" where
  "mhd_required_keys =
     [''SPH:artificial_dissipation_constant'',
      ''SPH:artificial_dissipation_minimum'',
      ''SPH:artificial_dissipation_source'',
      ''SPH:artificial_dissipation_timescale'',
      ''SPH:div_B_parabolic_sigma'']"

definition mhd_required_present :: "swift_params \<Rightarrow> bool" where
  "mhd_required_present params = list_all (\<lambda>k. float_params params k \<noteq> None) mhd_required_keys"

text \<open>A parameter file for the examples: the five required keys, and what else is given.\<close>

definition example_params :: "(string \<times> c_float) list \<Rightarrow> (string \<times> int) list \<Rightarrow> swift_params" where
  "example_params fs is =
     \<lparr>float_params = map_of
        (fs @
         [(''SPH:artificial_dissipation_constant'', Finite 1),
          (''SPH:artificial_dissipation_minimum'', Finite 0),
          (''SPH:artificial_dissipation_source'', Finite 1),
          (''SPH:artificial_dissipation_timescale'', Finite 2),
          (''SPH:div_B_parabolic_sigma'', Finite 0.5)]),
      int_params = map_of is\<rparr>"

text \<open>A struct before initialisation, holding whatever was there.\<close>

definition example_mhd :: mhd_global_data where
  "example_mhd =
     \<lparr>artificial_dissipation_constant = NaN,
      artificial_dissipation_minimum = NaN,
      artificial_dissipation_source = NaN,
      artificial_dissipation_timescale = NaN,
      with_div_B_cleaning = 7,
      div_B_parabolic_sigma = NaN,
      div_B_over_clean_factor = NaN\<rparr>"

section \<open>Auxiliary facts\<close>

lemma mhd_required_present_iff:
  "mhd_required_present params =
     (float_params params ''SPH:artificial_dissipation_constant'' \<noteq> None \<and>
      float_params params ''SPH:artificial_dissipation_minimum'' \<noteq> None \<and>
      float_params params ''SPH:artificial_dissipation_source'' \<noteq> None \<and>
      float_params params ''SPH:artificial_dissipation_timescale'' \<noteq> None \<and>
      float_params params ''SPH:div_B_parabolic_sigma'' \<noteq> None)"
  by (simp add: mhd_required_present_def mhd_required_keys_def)

text \<open>With the five required keys present, only the final check decides the outcome.\<close>

lemma mhd_init_present:
  assumes "mhd_required_present params"
  shows "mhd_init params us phys_const cd mhd =
     (if float_lt (parser_get_opt_param_float params ''SPH:div_B_over_clean_factor'' (Finite 1))
           (Finite 1)
      then Inl (Fatal ''Cannot have div_B_over_clean_factor < 1.'')
      else Inr \<lparr>artificial_dissipation_constant =
                  the (float_params params ''SPH:artificial_dissipation_constant''),
                artificial_dissipation_minimum =
                  the (float_params params ''SPH:artificial_dissipation_minimum''),
                artificial_dissipation_source =
                  the (float_params params ''SPH:artificial_dissipation_source''),
                artificial_dissipation_timescale =
                  the (float_params params ''SPH:artificial_dissipation_timescale''),
                with_div_B_cleaning =
                  parser_get_opt_param_int params ''SPH:with_div_B_cleaning'' cd,
                div_B_parabolic_sigma = the (float_params params ''SPH:div_B_parabolic_sigma''),
                div_B_over_clean_factor =
                  parser_get_opt_param_float params ''SPH:div_B_over_clean_factor'' (Finite 1)\<rparr>)"
  using assms
  by (auto simp: mhd_required_present_iff mhd_init_def parser_get_param_float_def Let_def)

text \<open>With one of them absent, the run ends at the first absent one, in source order.\<close>

lemma mhd_init_absent:
  assumes "\<not> mhd_required_present params"
  shows "\<exists>k. find (\<lambda>k. float_params params k = None) mhd_required_keys = Some k \<and>
             mhd_init params us phys_const cd mhd = Inl (Missing_parameter k)"
  using assms
  by (auto simp: mhd_required_present_iff mhd_required_keys_def mhd_init_def
        parser_get_param_float_def Let_def split: option.splits)

lemma io_write_attribute_f_apply:
  "io_write_attribute_f grp name v file g =
     (if g = grp then file grp @ [(name, Attribute_f v)] else file g)"
  by (simp add: io_write_attribute_f_def)

lemma io_write_attribute_i_apply:
  "io_write_attribute_i grp name v file g =
     (if g = grp then file grp @ [(name, Attribute_i v)] else file g)"
  by (simp add: io_write_attribute_i_def)

lemma float_ge_iff_not_lt: "x \<noteq> NaN \<Longrightarrow> y \<noteq> NaN \<Longrightarrow> float_ge x y = (\<not> float_lt x y)"
  by (cases x; cases y) auto

section \<open>The claims\<close>

text \<open>
  Claim C1. Whenever the parameter file gives \<^verbatim>\<open>SPH:div_B_over_clean_factor\<close> a value
  below 1, \<open>mhd_init\<close> ends the run and returns no struct; with the five required keys
  present the message is the one of the check. With those keys present, the run ends
  exactly when the resolved factor (the given value, or 1 by default) is strictly below
  1: the bound 1 itself is accepted.
\<close>

theorem mhd_init_over_clean_factor_below_one_fatal:
  "(\<forall>v. float_params params ''SPH:div_B_over_clean_factor'' = Some v \<and> float_lt v (Finite 1) \<longrightarrow>
        (\<exists>e. mhd_init params us phys_const cd mhd = Inl e) \<and>
        (mhd_required_present params \<longrightarrow>
           mhd_init params us phys_const cd mhd =
             Inl (Fatal ''Cannot have div_B_over_clean_factor < 1.''))) \<and>
   (mhd_required_present params \<longrightarrow>
      (\<exists>e. mhd_init params us phys_const cd mhd = Inl e) =
        float_lt (parser_get_opt_param_float params ''SPH:div_B_over_clean_factor'' (Finite 1))
          (Finite 1))"
proof (cases "mhd_required_present params")
  case True
  then show ?thesis
    by (simp add: mhd_init_present parser_get_opt_param_float_def)
next
  case False
  from mhd_init_absent [OF this, of us phys_const cd mhd] show ?thesis
    using False by auto
qed

theorem mhd_init_over_clean_factor_below_one_fatal_witness:
  "mhd_init (example_params [(''SPH:div_B_over_clean_factor'', Finite 0.5)] []) () () 0 example_mhd
     = Inl (Fatal ''Cannot have div_B_over_clean_factor < 1.'') \<and>
   \<not> (\<exists>e. mhd_init (example_params [(''SPH:div_B_over_clean_factor'', Finite 1)] []) () () 0
            example_mhd = Inl e)"
  using mhd_init_over_clean_factor_below_one_fatal
          [of "example_params [(''SPH:div_B_over_clean_factor'', Finite 0.5)] []"
              "()" "()" 0 example_mhd]
        mhd_init_over_clean_factor_below_one_fatal
          [of "example_params [(''SPH:div_B_over_clean_factor'', Finite 1)] []"
              "()" "()" 0 example_mhd]
  by (simp add: example_params_def mhd_required_present_iff parser_get_opt_param_float_def)

text \<open>
  Claim C2. \<open>mhd_print_snapshot\<close> appends to the group, in this order, the four
  dissipation attributes and the int attribute \<^verbatim>\<open>divB cleaning turned on\<close>, whatever
  the struct holds, and after them \<^verbatim>\<open>divB parabolic sigma\<close> and
  \<^verbatim>\<open>divB over-cleaning factor\<close> if and only if \<open>with_div_B_cleaning\<close> is not 0. The
  names are these literal strings, and no other group of the file changes.
\<close>

theorem mhd_print_snapshot_attributes:
  "mhd_print_snapshot h_grpsph mhd file =
     file(h_grpsph := file h_grpsph @
       [(''Artificial dissipation constant'', Attribute_f (artificial_dissipation_constant mhd)),
        (''Artificial dissipation minimum'', Attribute_f (artificial_dissipation_minimum mhd)),
        (''Artificial dissipation source'', Attribute_f (artificial_dissipation_source mhd)),
        (''Artificial dissipation timescale'', Attribute_f (artificial_dissipation_timescale mhd)),
        (''divB cleaning turned on'', Attribute_i (with_div_B_cleaning mhd))] @
       (if with_div_B_cleaning mhd \<noteq> 0
        then [(''divB parabolic sigma'', Attribute_f (div_B_parabolic_sigma mhd)),
              (''divB over-cleaning factor'', Attribute_f (div_B_over_clean_factor mhd))]
        else [])) \<and>
   (''divB parabolic sigma'' \<in>
      fst ` set (drop (length (file h_grpsph)) (mhd_print_snapshot h_grpsph mhd file h_grpsph)))
     = (with_div_B_cleaning mhd \<noteq> 0) \<and>
   (''divB over-cleaning factor'' \<in>
      fst ` set (drop (length (file h_grpsph)) (mhd_print_snapshot h_grpsph mhd file h_grpsph)))
     = (with_div_B_cleaning mhd \<noteq> 0)"
proof -
  have writes: "mhd_print_snapshot h_grpsph mhd file =
     file(h_grpsph := file h_grpsph @
       [(''Artificial dissipation constant'', Attribute_f (artificial_dissipation_constant mhd)),
        (''Artificial dissipation minimum'', Attribute_f (artificial_dissipation_minimum mhd)),
        (''Artificial dissipation source'', Attribute_f (artificial_dissipation_source mhd)),
        (''Artificial dissipation timescale'', Attribute_f (artificial_dissipation_timescale mhd)),
        (''divB cleaning turned on'', Attribute_i (with_div_B_cleaning mhd))] @
       (if with_div_B_cleaning mhd \<noteq> 0
        then [(''divB parabolic sigma'', Attribute_f (div_B_parabolic_sigma mhd)),
              (''divB over-cleaning factor'', Attribute_f (div_B_over_clean_factor mhd))]
        else []))"
    by (rule ext)
       (simp add: mhd_print_snapshot_def Let_def io_write_attribute_f_apply
          io_write_attribute_i_apply)
  show ?thesis
    unfolding writes by (cases "with_div_B_cleaning mhd = 0") simp_all
qed

theorem mhd_print_snapshot_attributes_witness:
  "mhd_print_snapshot 5 (mhd_init_no_hydro example_mhd) (\<lambda>g. []) 5 =
     [(''Artificial dissipation constant'', Attribute_f (Finite 0)),
      (''Artificial dissipation minimum'', Attribute_f (Finite 0)),
      (''Artificial dissipation source'', Attribute_f (Finite 0)),
      (''Artificial dissipation timescale'', Attribute_f (Finite 0)),
      (''divB cleaning turned on'', Attribute_i 0)] \<and>
   mhd_print_snapshot 5 example_mhd (\<lambda>g. []) 5 =
     [(''Artificial dissipation constant'', Attribute_f NaN),
      (''Artificial dissipation minimum'', Attribute_f NaN),
      (''Artificial dissipation source'', Attribute_f NaN),
      (''Artificial dissipation timescale'', Attribute_f NaN),
      (''divB cleaning turned on'', Attribute_i 7),
      (''divB parabolic sigma'', Attribute_f NaN),
      (''divB over-cleaning factor'', Attribute_f NaN)]"
  using mhd_print_snapshot_attributes [of 5 "mhd_init_no_hydro example_mhd" "\<lambda>g. []"]
        mhd_print_snapshot_attributes [of 5 example_mhd "\<lambda>g. []"]
  by (simp add: mhd_init_no_hydro_def example_mhd_def)

text \<open>
  Claim C3. \<open>viscosity_print_snapshot\<close> appends exactly two attributes to the group:
  \<^verbatim>\<open>Alpha viscosity\<close> with the struct's alpha, then \<^verbatim>\<open>Beta viscosity\<close> with the
  constant 3.0. For a parameter file that gives \<^verbatim>\<open>SPH:viscosity_alpha\<close> the value 0.5,
  initialising and then writing yields \<^verbatim>\<open>Alpha viscosity\<close> = 0.5 and
  \<^verbatim>\<open>Beta viscosity\<close> = 3.0.
\<close>

theorem viscosity_print_snapshot_attributes:
  "viscosity_print_snapshot h_grpsph viscosity file =
     file(h_grpsph := file h_grpsph @
       [(''Alpha viscosity'', Attribute_f (alpha viscosity)),
        (''Beta viscosity'', Attribute_f (Finite 3.0))]) \<and>
   length (viscosity_print_snapshot h_grpsph viscosity file h_grpsph) =
     length (file h_grpsph) + 2 \<and>
   (float_params params ''SPH:viscosity_alpha'' = Some (Finite 0.5) \<longrightarrow>
      viscosity_print_snapshot h_grpsph (viscosity_init params us phys_const viscosity) file =
        file(h_grpsph := file h_grpsph @
          [(''Alpha viscosity'', Attribute_f (Finite 0.5)),
           (''Beta viscosity'', Attribute_f (Finite 3.0))]))"
  by (auto simp: viscosity_print_snapshot_def Let_def io_write_attribute_f_apply
        const_viscosity_beta_def viscosity_init_def parser_get_opt_param_float_def fun_eq_iff)

theorem viscosity_print_snapshot_attributes_witness:
  "viscosity_print_snapshot 5
     (viscosity_init \<lparr>float_params = [''SPH:viscosity_alpha'' \<mapsto> Finite 0.5],
                      int_params = Map.empty\<rparr> () () \<lparr>alpha = NaN\<rparr>)
     (\<lambda>g. []) 5 =
     [(''Alpha viscosity'', Attribute_f (Finite 0.5)),
      (''Beta viscosity'', Attribute_f (Finite 3.0))]"
  using viscosity_print_snapshot_attributes
          [of 5 "\<lparr>alpha = NaN\<rparr>" "\<lambda>g. []"
              "\<lparr>float_params = [''SPH:viscosity_alpha'' \<mapsto> Finite 0.5],
                int_params = Map.empty\<rparr>" "()" "()"]
  by simp

text \<open>
  Claim C4. \<open>viscosity_init\<close> always returns a struct (it has no failing branch, and
  neither has the optional lookup): alpha is 0.8 when the parameter file has no
  \<^verbatim>\<open>SPH:viscosity_alpha\<close>, and is the given value, whatever it is, when it has one. No
  range is checked.
\<close>

theorem viscosity_init_alpha:
  "(float_params params ''SPH:viscosity_alpha'' = None \<longrightarrow>
      viscosity_init params us phys_const viscosity = \<lparr>alpha = Finite 0.8\<rparr>) \<and>
   (\<forall>v. float_params params ''SPH:viscosity_alpha'' = Some v \<longrightarrow>
      viscosity_init params us phys_const viscosity = \<lparr>alpha = v\<rparr>)"
  by (simp add: viscosity_init_def parser_get_opt_param_float_def
        hydro_props_default_viscosity_alpha_def)

theorem viscosity_init_alpha_witness:
  "viscosity_init \<lparr>float_params = Map.empty, int_params = Map.empty\<rparr> () () \<lparr>alpha = NaN\<rparr> =
     \<lparr>alpha = Finite 0.8\<rparr> \<and>
   viscosity_init \<lparr>float_params = [''SPH:viscosity_alpha'' \<mapsto> Finite (-2)],
                   int_params = Map.empty\<rparr> () () \<lparr>alpha = NaN\<rparr> =
     \<lparr>alpha = Finite (-2)\<rparr>"
  using viscosity_init_alpha
          [of "\<lparr>float_params = Map.empty, int_params = Map.empty\<rparr>" "()" "()" "\<lparr>alpha = NaN\<rparr>"]
        viscosity_init_alpha
          [of "\<lparr>float_params = [''SPH:viscosity_alpha'' \<mapsto> Finite (-2)],
                int_params = Map.empty\<rparr>" "()" "()" "\<lparr>alpha = NaN\<rparr>"]
  by simp

text \<open>
  Claim C5. When the parameter file has the five required keys and no
  \<^verbatim>\<open>SPH:div_B_over_clean_factor\<close>, \<open>mhd_init\<close> returns a struct, its over-cleaning
  factor is exactly 1, and 1 passes the check: it is at least 1 and not below 1.
\<close>

theorem mhd_init_default_over_clean_factor:
  assumes "float_params params ''SPH:div_B_over_clean_factor'' = None"
      and "mhd_required_present params"
  shows "\<exists>r. mhd_init params us phys_const cd mhd = Inr r \<and>
             div_B_over_clean_factor r = Finite 1 \<and>
             float_ge (div_B_over_clean_factor r) (Finite 1) \<and>
             \<not> float_lt (div_B_over_clean_factor r) (Finite 1)"
  using assms by (simp add: mhd_init_present parser_get_opt_param_float_def)

theorem mhd_init_default_over_clean_factor_witness:
  "\<exists>r. mhd_init (example_params [] [(''SPH:with_div_B_cleaning'', 1)]) () () 0 example_mhd = Inr r \<and>
       div_B_over_clean_factor r = Finite 1 \<and>
       float_ge (div_B_over_clean_factor r) (Finite 1) \<and>
       \<not> float_lt (div_B_over_clean_factor r) (Finite 1)"
proof -
  have absent: "float_params (example_params [] [(''SPH:with_div_B_cleaning'', 1)])
                  ''SPH:div_B_over_clean_factor'' = None"
    by (simp add: example_params_def)
  have present: "mhd_required_present (example_params [] [(''SPH:with_div_B_cleaning'', 1)])"
    by (simp add: example_params_def mhd_required_present_iff)
  show ?thesis
    by (rule mhd_init_default_over_clean_factor [OF absent present])
qed

text \<open>
  Claim C6. \<open>mhd_print\<close> is to log the four dissipation values and then to branch on
  the struct's \<open>with_div_B_cleaning\<close>. The source's condition reads the member
  \<^verbatim>\<open>div_B_cleaning\<close>, which \<^verbatim>\<open>struct mhd_global_data\<close> does not declare (the declared
  member is \<^verbatim>\<open>with_div_B_cleaning\<close>, the one \<open>mhd_print_snapshot\<close> tests): for every
  struct the function is ill-formed at that selection, and no branch on
  \<open>with_div_B_cleaning\<close> is taken.
\<close>

theorem mhd_print_unknown_member:
  "mhd_print mhd lg = Inl (No_member ''mhd_global_data'' ''div_B_cleaning'') \<and>
   mhd_global_data_member mhd ''div_B_cleaning'' = None \<and>
   mhd_global_data_member mhd ''with_div_B_cleaning'' = Some (Member_int (with_div_B_cleaning mhd))"
  by (simp add: mhd_print_def mhd_global_data_member_def Let_def)

text \<open>
  Claim C7. When any of the five required keys (the four dissipation keys and
  \<^verbatim>\<open>SPH:div_B_parabolic_sigma\<close>) is absent from the parameter file, \<open>mhd_init\<close> ends
  the run: the result is the failure of the first absent key in source order, reached
  without any later lookup, and no struct is returned.
\<close>

theorem mhd_init_missing_required_fatal:
  assumes "k \<in> set mhd_required_keys" and "float_params params k = None"
  shows "\<exists>k'. find (\<lambda>k. float_params params k = None) mhd_required_keys = Some k' \<and>
              mhd_init params us phys_const cd mhd = Inl (Missing_parameter k')"
proof -
  from assms have "\<not> mhd_required_present params"
    by (auto simp: mhd_required_present_def list_all_iff)
  then show ?thesis
    by (rule mhd_init_absent)
qed

theorem mhd_init_missing_required_fatal_witness:
  "mhd_init \<lparr>float_params =
               [''SPH:artificial_dissipation_constant'' \<mapsto> Finite 1,
                ''SPH:artificial_dissipation_minimum'' \<mapsto> Finite 0,
                ''SPH:artificial_dissipation_source'' \<mapsto> Finite 1,
                ''SPH:artificial_dissipation_timescale'' \<mapsto> Finite 2],
             int_params = Map.empty\<rparr> () () 0 example_mhd =
     Inl (Missing_parameter ''SPH:div_B_parabolic_sigma'')"
  using mhd_init_missing_required_fatal
          [of "''SPH:div_B_parabolic_sigma''"
              "\<lparr>float_params =
                 [''SPH:artificial_dissipation_constant'' \<mapsto> Finite 1,
                  ''SPH:artificial_dissipation_minimum'' \<mapsto> Finite 0,
                  ''SPH:artificial_dissipation_source'' \<mapsto> Finite 1,
                  ''SPH:artificial_dissipation_timescale'' \<mapsto> Finite 2],
                int_params = Map.empty\<rparr>" "()" "()" 0 example_mhd]
  by (simp add: mhd_required_keys_def)

text \<open>
  Claim C8. The mock initialisers give the same struct on every call:
  \<open>viscosity_init_no_hydro\<close> gives alpha = 0.8 and \<open>mhd_init_no_hydro\<close> gives seven
  zero members, whatever struct they are handed; calling them again changes nothing.
  They take no parameter file.
\<close>

theorem mock_init_deterministic:
  "viscosity_init_no_hydro viscosity = \<lparr>alpha = Finite 0.8\<rparr> \<and>
   mhd_init_no_hydro mhd =
     \<lparr>artificial_dissipation_constant = Finite 0,
      artificial_dissipation_minimum = Finite 0,
      artificial_dissipation_source = Finite 0,
      artificial_dissipation_timescale = Finite 0,
      with_div_B_cleaning = 0,
      div_B_parabolic_sigma = Finite 0,
      div_B_over_clean_factor = Finite 0\<rparr> \<and>
   viscosity_init_no_hydro (viscosity_init_no_hydro viscosity) = viscosity_init_no_hydro viscosity \<and>
   mhd_init_no_hydro (mhd_init_no_hydro mhd) = mhd_init_no_hydro mhd \<and>
   viscosity_init_no_hydro viscosity = viscosity_init_no_hydro viscosity' \<and>
   mhd_init_no_hydro mhd = mhd_init_no_hydro mhd'"
  by (simp add: viscosity_init_no_hydro_def mhd_init_no_hydro_def
        hydro_props_default_viscosity_alpha_def)

text \<open>
  Claim C9. The four diffusion functions do nothing: \<open>diffusion_init\<close> and
  \<open>diffusion_init_no_hydro\<close> return the struct as it was, \<open>diffusion_print\<close> leaves the
  log as it was, \<open>diffusion_print_snapshot\<close> leaves the file as it was, and the result
  of \<open>diffusion_init\<close> does not depend on the parameter file, the unit system or the
  physical constants.
\<close>

theorem diffusion_operations_are_noops:
  "diffusion_init params us phys_const diffusion = diffusion \<and>
   diffusion_init_no_hydro diffusion = diffusion \<and>
   diffusion_print diffusion lg = lg \<and>
   diffusion_print_snapshot h_grpsph diffusion file = file \<and>
   diffusion_init params us phys_const diffusion = diffusion_init params' us' phys_const' diffusion"
  by (simp add: diffusion_init_def diffusion_init_no_hydro_def diffusion_print_def
        diffusion_print_snapshot_def)

text \<open>
  Claim C10, as amended. The struct of \<open>mhd_init_no_hydro\<close> has over-cleaning factor 0,
  which is below 1 and not at least 1, so it is a struct that \<open>mhd_init\<close> never
  returns. What \<open>mhd_init\<close> enforces is its check \<^verbatim>\<open>< 1.f\<close>: the factor of a struct
  it returns is never below 1, and is at least 1 whenever it is not a NaN. No bound
  holds on every initialised struct.
\<close>

theorem mhd_init_no_hydro_breaks_invariant:
  "div_B_over_clean_factor (mhd_init_no_hydro mhd) = Finite 0 \<and>
   \<not> float_ge (div_B_over_clean_factor (mhd_init_no_hydro mhd)) (Finite 1) \<and>
   float_lt (div_B_over_clean_factor (mhd_init_no_hydro mhd)) (Finite 1) \<and>
   mhd_init params us phys_const cd mhd' \<noteq> Inr (mhd_init_no_hydro mhd) \<and>
   (mhd_init params us phys_const cd mhd' = Inr r \<longrightarrow>
      \<not> float_lt (div_B_over_clean_factor r) (Finite 1) \<and>
      (div_B_over_clean_factor r \<noteq> NaN \<longrightarrow> float_ge (div_B_over_clean_factor r) (Finite 1)))"
proof -
  have mock: "div_B_over_clean_factor (mhd_init_no_hydro mhd) = Finite 0"
    by (simp add: mhd_init_no_hydro_def)
  have resolved: "\<not> float_lt (div_B_over_clean_factor r') (Finite 1)"
    if "mhd_init params us phys_const cd mhd' = Inr r'" for r'
  proof (cases "mhd_required_present params")
    case True
    with that show ?thesis
      by (auto simp: mhd_init_present split: if_splits)
  next
    case False
    from mhd_init_absent [OF this, of us phys_const cd mhd'] that show ?thesis
      by auto
  qed
  have "mhd_init params us phys_const cd mhd' \<noteq> Inr (mhd_init_no_hydro mhd)"
    using resolved [of "mhd_init_no_hydro mhd"] mock by auto
  with mock resolved show ?thesis
    by (auto simp: float_ge_iff_not_lt)
qed

theorem mhd_init_no_hydro_breaks_invariant_witness:
  "float_lt (div_B_over_clean_factor (mhd_init_no_hydro example_mhd)) (Finite 1) \<and>
   float_ge (div_B_over_clean_factor
      \<lparr>artificial_dissipation_constant = Finite 1,
       artificial_dissipation_minimum = Finite 0,
       artificial_dissipation_source = Finite 1,
       artificial_dissipation_timescale = Finite 2,
       with_div_B_cleaning = 0,
       div_B_parabolic_sigma = Finite 0.5,
       div_B_over_clean_factor = Finite 4\<rparr>) (Finite 1) \<and>
   mhd_init (example_params [(''SPH:div_B_over_clean_factor'', Finite 4)] []) () () 0 example_mhd =
     Inr \<lparr>artificial_dissipation_constant = Finite 1,
          artificial_dissipation_minimum = Finite 0,
          artificial_dissipation_source = Finite 1,
          artificial_dissipation_timescale = Finite 2,
          with_div_B_cleaning = 0,
          div_B_parabolic_sigma = Finite 0.5,
          div_B_over_clean_factor = Finite 4\<rparr>"
proof -
  have run: "mhd_init (example_params [(''SPH:div_B_over_clean_factor'', Finite 4)] []) () () 0
               example_mhd =
     Inr \<lparr>artificial_dissipation_constant = Finite 1,
          artificial_dissipation_minimum = Finite 0,
          artificial_dissipation_source = Finite 1,
          artificial_dissipation_timescale = Finite 2,
          with_div_B_cleaning = 0,
          div_B_parabolic_sigma = Finite 0.5,
          div_B_over_clean_factor = Finite 4\<rparr>"
    by (simp add: mhd_init_def example_params_def parser_get_param_float_def
          parser_get_opt_param_float_def parser_get_opt_param_int_def example_mhd_def)
  from mhd_init_no_hydro_breaks_invariant
         [of example_mhd "example_params [(''SPH:div_B_over_clean_factor'', Finite 4)] []"
             "()" "()" 0 example_mhd
             "\<lparr>artificial_dissipation_constant = Finite 1,
               artificial_dissipation_minimum = Finite 0,
               artificial_dissipation_source = Finite 1,
               artificial_dissipation_timescale = Finite 2,
               with_div_B_cleaning = 0,
               div_B_parabolic_sigma = Finite 0.5,
               div_B_over_clean_factor = Finite 4\<rparr>"]
       run
  show ?thesis by simp
qed

text \<open>
  Claim C10 as first stated has the bound \<open>\<ge> 1\<close> hold on every struct that comes from
  the parameter file. A NaN is not below \<^verbatim>\<open>1.f\<close>, so the check lets it through: with
  \<^verbatim>\<open>SPH:div_B_over_clean_factor\<close> given as NaN, \<open>mhd_init\<close> returns a struct whose
  factor is not at least 1.
\<close>

theorem mhd_init_nan_factor_counterexample:
  "mhd_init (example_params [(''SPH:div_B_over_clean_factor'', NaN)] []) () () 0 example_mhd =
     Inr \<lparr>artificial_dissipation_constant = Finite 1,
          artificial_dissipation_minimum = Finite 0,
          artificial_dissipation_source = Finite 1,
          artificial_dissipation_timescale = Finite 2,
          with_div_B_cleaning = 0,
          div_B_parabolic_sigma = Finite 0.5,
          div_B_over_clean_factor = NaN\<rparr> \<and>
   \<not> float_ge (div_B_over_clean_factor
        \<lparr>artificial_dissipation_constant = Finite 1,
         artificial_dissipation_minimum = Finite 0,
         artificial_dissipation_source = Finite 1,
         artificial_dissipation_timescale = Finite 2,
         with_div_B_cleaning = 0,
         div_B_parabolic_sigma = Finite 0.5,
         div_B_over_clean_factor = NaN\<rparr>) (Finite 1)"
  by (simp add: mhd_init_def example_params_def parser_get_param_float_def
        parser_get_opt_param_float_def parser_get_opt_param_int_def example_mhd_def)

end
